theory Spec2Isabelle
  imports Main "HOL-Library.Char_ord" "HOL-Library.List_Lexorder"
begin

section \<open>Python strings\<close>

text \<open>
  The module is Python 2 code (implicit relative imports), so a tool name is a byte
  string. \<open>str.upper\<close> and \<open>str.lower\<close> touch the ASCII letters only, and
  \<open>sorted\<close> compares strings byte by byte, a proper prefix first: the lexicographic
  order of \<open>char list\<close>.
\<close>

definition py_upper :: "char \<Rightarrow> char" where
  "py_upper c = (let n = (of_char c :: nat) in
     if 97 \<le> n \<and> n \<le> 122 then char_of (n - 32) else c)"

definition py_lower :: "char \<Rightarrow> char" where
  "py_lower c = (let n = (of_char c :: nat) in
     if 65 \<le> n \<and> n \<le> 90 then char_of (n + 32) else c)"

text \<open>\<open>s.replace(old, new)\<close> for one-character \<open>old\<close> and \<open>new\<close>.\<close>

definition replace :: "char \<Rightarrow> char \<Rightarrow> string \<Rightarrow> string" where
  "replace old new s = map (\<lambda>c. if c = old then new else c) s"

text \<open>\<open>s.capitalize()\<close>: first character upper-cased, the others lower-cased.\<close>

fun capitalize :: "string \<Rightarrow> string" where
  "capitalize [] = []"
| "capitalize (c # cs) = py_upper c # map py_lower cs"

section \<open>Generated classes and the registry\<close>

datatype base = GromacsCommand | GromacsCommandMultiIndex | Command

text \<open>
  A generated class: its name, its single base class and its \<open>command_name\<close>
  attribute. The \<open>__doc__\<close> attribute (built with \<open>%r\<close>) is not modelled.
\<close>

record pycls =
  cls_name :: string
  cls_base :: base
  command_name :: string

type_synonym registry = "string \<rightharpoonup> pycls"

text \<open>\<open>clsname = name.replace('.','_').replace('-','_').capitalize()\<close>\<close>

definition clsname_of :: "string \<Rightarrow> string" where
  "clsname_of name = capitalize (replace CHR ''-'' CHR ''_'' (replace CHR ''.'' CHR ''_'' name))"

text \<open>What the two replacements do to one character.\<close>

definition sep :: "char \<Rightarrow> char" where
  "sep c = (if c = CHR ''.'' \<or> c = CHR ''-'' then CHR ''_'' else c)"

text \<open>\<open>type(clsname, (GromacsCommand,), {'command_name': '{}_mpi'.format(name), ...})\<close>\<close>

definition tool_class :: "string \<Rightarrow> pycls" where
  "tool_class name =
     \<lparr>cls_name = clsname_of name, cls_base = GromacsCommand, command_name = name @ ''_mpi''\<rparr>"

text \<open>The loop \<open>for name in sorted(config.load_tools): ... registry[clsname] = cls\<close>.\<close>

definition register_tool :: "registry \<Rightarrow> string \<Rightarrow> registry" where
  "register_tool reg name = reg(clsname_of name \<mapsto> tool_class name)"

definition generate :: "string list \<Rightarrow> registry" where
  "generate load_tools = foldl register_tool Map.empty (sort load_tools)"

text \<open>The two hand-written classes \<open>class G_mindist(GromacsCommandMultiIndex)\<close> and
  \<open>class G_dist(GromacsCommandMultiIndex)\<close>.\<close>

definition G_mindist :: pycls where
  "G_mindist =
     \<lparr>cls_name = ''G_mindist'', cls_base = GromacsCommandMultiIndex, command_name = ''g_mindist''\<rparr>"

definition G_dist :: pycls where
  "G_dist =
     \<lparr>cls_name = ''G_dist'', cls_base = GromacsCommandMultiIndex, command_name = ''g_dist''\<rparr>"

text \<open>\<open>if 'G_mindist' in registry: ... registry['G_mindist'] = G_mindist\<close>, then the
  same for \<open>G_dist\<close>.\<close>

definition patch_mindist :: "registry \<Rightarrow> registry" where
  "patch_mindist reg =
     (if reg ''G_mindist'' \<noteq> None then reg(''G_mindist'' \<mapsto> G_mindist) else reg)"

definition patch_dist :: "registry \<Rightarrow> registry" where
  "patch_dist reg =
     (if reg ''G_dist'' \<noteq> None then reg(''G_dist'' \<mapsto> G_dist) else reg)"

definition patched :: "string list \<Rightarrow> registry" where
  "patched load_tools = patch_dist (patch_mindist (generate load_tools))"

text \<open>
  The loop over \<open>config.load_scripts\<close>; a record is the triple
  \<open>(name, clsname, doc)\<close>, and \<open>name\<close> is the path of the script.
\<close>

type_synonym script = "string \<times> string \<times> string"

definition script_class :: "script \<Rightarrow> pycls" where
  "script_class rec = (case rec of (name, clsname, doc) \<Rightarrow>
     \<lparr>cls_name = clsname, cls_base = Command, command_name = name\<rparr>)"

definition register_script :: "registry \<Rightarrow> script \<Rightarrow> registry" where
  "register_script reg rec = (case rec of (name, clsname, doc) \<Rightarrow>
     reg(clsname \<mapsto> script_class rec))"

text \<open>The registry once the module is loaded; \<open>globals().update(registry)\<close> publishes
  it and \<open>__all__\<close> is its key set.\<close>

definition module_registry :: "string list \<Rightarrow> script list \<Rightarrow> registry" where
  "module_registry load_tools load_scripts =
     foldl register_script (patched load_tools) load_scripts"

definition all_names :: "string list \<Rightarrow> script list \<Rightarrow> string set" where
  "all_names load_tools load_scripts = dom (module_registry load_tools load_scripts)"

section \<open>The multi-index command\<close>

text \<open>
  The Python values a keyword argument can hold, as far as the method looks at them.
  \<open>PStr\<close> is a string of type \<open>str\<close> exactly; \<open>PUnicode\<close> is a Python 2
  \<open>unicode\<close> string and \<open>PStrSub\<close> an instance of a subclass of \<open>str\<close>.
\<close>

datatype pyval =
    PNone
  | PStr string
  | PUnicode string
  | PStrSub string
  | PInt int
  | PBool bool
  | PList "pyval list"
  | PTuple "pyval list"

type_synonym kwargs = "string \<rightharpoonup> pyval"

text \<open>\<open>kwargs.get(k)\<close>: \<open>None\<close> for a missing key.\<close>

definition kwargs_get :: "kwargs \<Rightarrow> string \<Rightarrow> pyval" where
  "kwargs_get kw k = (case kw k of None \<Rightarrow> PNone | Some v \<Rightarrow> v)"

text \<open>\<open>type(v) is str\<close>\<close>

fun is_str :: "pyval \<Rightarrow> bool" where
  "is_str (PStr s) = True"
| "is_str v = False"

text \<open>\<open>len(v)\<close>; \<open>None\<close> stands for the \<open>TypeError\<close> of a value without length.\<close>

fun py_len :: "pyval \<Rightarrow> nat option" where
  "py_len (PStr s) = Some (length s)"
| "py_len (PUnicode s) = Some (length s)"
| "py_len (PStrSub s) = Some (length s)"
| "py_len (PList xs) = Some (length xs)"
| "py_len (PTuple xs) = Some (length xs)"
| "py_len v = None"

datatype exn =
    AttributeError
  | OSError nat
  | IOError
  | TypeError
  | NameError
  | OtherError string

text \<open>The instance attributes the class adds; \<open>None\<close> is an attribute never set.\<close>

record inst =
  multi_ndx :: "string option"
  orig_ndx :: "pyval option"

text \<open>
  One call \<open>Make_ndx(f=..., n=...)(o=..., input=..., stdout=..., stderr=...)\<close>: the
  class found under the name \<open>Make_ndx\<close> and the keyword arguments of the
  constructor and of the call.
\<close>

record invocation =
  inv_cls :: pycls
  inv_f :: pyval
  inv_n :: pyval
  inv_o :: pyval
  inv_input :: pyval
  inv_stdout :: pyval
  inv_stderr :: pyval

datatype event =
    MakeNdx invocation
  | BaseInit kwargs
  | BaseRun "pyval list" kwargs

text \<open>
  What the methods act on besides the instance: the files on disk, the number of file
  descriptors the process holds open, the position in the stream of random names of
  \<open>tempfile\<close>, and the calls made so far to the collaborators.
\<close>

record world =
  files :: "string set"
  fds :: nat
  rng :: nat
  trace :: "event list"

text \<open>
  What this module does not define: the temporary directory, the random names and
  \<open>TMP_MAX\<close> of \<open>tempfile\<close>; the error number, other than \<open>EEXIST\<close>, with
  which \<open>os.open\<close> fails on a path (\<open>EMFILE\<close>, \<open>EACCES\<close>, \<open>ENOENT\<close> of a
  missing directory), if it does; the module's global names (the published registry);
  the effect of running a command object; \<open>utilities.unlink_gmx\<close>; and the
  initializer and \<open>run\<close> of \<open>GromacsCommand\<close>. Each collaborator returns the
  exception it raises, if any, with the files it leaves.
\<close>

record env =
  tmpdir :: string
  candidate :: "nat \<Rightarrow> string"
  TMP_MAX :: nat
  os_open_error :: "string \<Rightarrow> world \<Rightarrow> nat option"
  module_globals :: registry
  run_command :: "invocation \<Rightarrow> string set \<Rightarrow> (exn + int \<times> string \<times> string) \<times> string set"
  unlink_gmx :: "string \<Rightarrow> string set \<Rightarrow> exn option \<times> string set"
  base_init :: "kwargs \<Rightarrow> string set \<Rightarrow> exn option \<times> string set"
  base_run :: "pyval list \<Rightarrow> kwargs \<Rightarrow> string set \<Rightarrow> (exn + pyval) \<times> string set"

text \<open>
  \<open>tempfile.mkstemp(suffix, prefix)\<close> of the standard library: up to \<open>TMP_MAX\<close>
  random names are tried with an exclusive \<open>os.open\<close>. A name whose file exists is
  skipped; any other failure of \<open>os.open\<close> is raised as \<open>OSError\<close>; the first name
  that opens is created and its path returned, with its descriptor open. When all
  names exist, \<open>IOError\<close>.
\<close>

fun mkstemp_inner :: "env \<Rightarrow> string \<Rightarrow> string \<Rightarrow> nat \<Rightarrow> world \<Rightarrow> (exn + string) \<times> world" where
  "mkstemp_inner E pre suf 0 w = (Inl IOError, w)"
| "mkstemp_inner E pre suf (Suc k) w =
     (let file = tmpdir E @ ''/'' @ pre @ candidate E (rng w) @ suf;
          w' = w\<lparr>rng := Suc (rng w)\<rparr>
      in case os_open_error E file w of
           Some errno \<Rightarrow> (Inl (OSError errno), w')
         | None \<Rightarrow>
             if file \<in> files w then mkstemp_inner E pre suf k w'
             else (Inr file, w'\<lparr>files := insert file (files w), fds := Suc (fds w)\<rparr>))"

definition mkstemp :: "env \<Rightarrow> string \<Rightarrow> string \<Rightarrow> world \<Rightarrow> (exn + string) \<times> world" where
  "mkstemp E suffix prefix w = mkstemp_inner E prefix suffix (TMP_MAX E) w"

text \<open>
  \<open>_fake_multi_ndx(self, **kwargs)\<close>. The result is the exception raised or the
  keyword arguments returned, with the instance and the world as the method leaves
  them. The descriptor \<open>fd\<close> that \<open>mkstemp\<close> returns is never closed. The name
  \<open>Make_ndx\<close> is looked up among the module's globals when the call is reached; the
  return code of the helper is never inspected.
\<close>

definition make_ndx_call :: "pycls \<Rightarrow> kwargs \<Rightarrow> pyval \<Rightarrow> string \<Rightarrow> invocation" where
  "make_ndx_call cls kw ndx path =
     \<lparr>inv_cls = cls, inv_f = kwargs_get kw ''s'', inv_n = ndx, inv_o = PStr path,
      inv_input = PList [PStr ''q''], inv_stdout = PBool False, inv_stderr = PBool False\<rparr>"

definition fake_multi_ndx ::
  "env \<Rightarrow> kwargs \<Rightarrow> inst \<times> world \<Rightarrow> (exn + kwargs) \<times> inst \<times> world" where
  "fake_multi_ndx E kw sw = (case sw of (self, w) \<Rightarrow>
     (let ndx = kwargs_get kw ''n'' in
      if \<not> (ndx = PNone \<or> is_str ndx) then
        (case py_len ndx of
           None \<Rightarrow> (Inl TypeError, self, w)
         | Some l \<Rightarrow>
             if l > 1 then
               (case mkstemp E ''.ndx'' ''multi_'' w of
                  (Inl e, w1) \<Rightarrow> (Inl e, self, w1)
                | (Inr path, w1) \<Rightarrow>
                    (let self1 = self\<lparr>multi_ndx := Some path\<rparr> in
                     case module_globals E ''Make_ndx'' of
                       None \<Rightarrow> (Inl NameError, self1, w1)
                     | Some cls \<Rightarrow>
                         (let inv = make_ndx_call cls kw ndx path;
                              w2 = w1\<lparr>trace := trace w1 @ [MakeNdx inv]\<rparr>
                          in case run_command E inv (files w2) of
                               (Inl e, fs) \<Rightarrow> (Inl e, self1, w2\<lparr>files := fs\<rparr>)
                             | (Inr rc_out_err, fs) \<Rightarrow>
                                 (Inr (kw(''n'' \<mapsto> PStr path)),
                                  self1\<lparr>orig_ndx := Some ndx\<rparr>,
                                  w2\<lparr>files := fs\<rparr>))))
             else (Inr kw, self, w))
      else (Inr kw, self, w)))"

text \<open>\<open>__init__(self, **kwargs)\<close>: the merge, then the initializer of the base class.\<close>

definition init ::
  "env \<Rightarrow> kwargs \<Rightarrow> inst \<times> world \<Rightarrow> exn option \<times> inst \<times> world" where
  "init E kw sw = (case fake_multi_ndx E kw sw of
       (Inl e, self, w) \<Rightarrow> (Some e, self, w)
     | (Inr kw', self, w) \<Rightarrow>
         (let w1 = w\<lparr>trace := trace w @ [BaseInit kw']\<rparr> in
          case base_init E kw' (files w1) of
            (r, fs) \<Rightarrow> (r, self, w1\<lparr>files := fs\<rparr>)))"

text \<open>\<open>run(self, *args, **kwargs)\<close>: the merge, then \<open>run\<close> of the base class.\<close>

definition run ::
  "env \<Rightarrow> pyval list \<Rightarrow> kwargs \<Rightarrow> inst \<times> world \<Rightarrow> (exn + pyval) \<times> inst \<times> world" where
  "run E args kw sw = (case fake_multi_ndx E kw sw of
       (Inl e, self, w) \<Rightarrow> (Inl e, self, w)
     | (Inr kw', self, w) \<Rightarrow>
         (let w1 = w\<lparr>trace := trace w @ [BaseRun args kw']\<rparr> in
          case base_run E args kw' (files w1) of
            (r, fs) \<Rightarrow> (r, self, w1\<lparr>files := fs\<rparr>)))"

text \<open>The handler \<open>except (AttributeError, OSError): pass\<close>.\<close>

fun caught :: "exn \<Rightarrow> bool" where
  "caught AttributeError = True"
| "caught (OSError errno) = True"
| "caught e = False"

text \<open>
  \<open>__del__(self)\<close>: reading \<open>self.multi_ndx\<close> raises \<open>AttributeError\<close> when the
  attribute was never set; otherwise the file is handed to \<open>utilities.unlink_gmx\<close>.
  The result is the exception that leaves the method, if any.
\<close>

definition del :: "env \<Rightarrow> inst \<times> world \<Rightarrow> exn option \<times> inst \<times> world" where
  "del E sw = (case sw of (self, w) \<Rightarrow>
     (let body = (case multi_ndx self of
                    None \<Rightarrow> (Some AttributeError, files w)
                  | Some path \<Rightarrow> unlink_gmx E path (files w))
      in case body of
           (None, fs) \<Rightarrow> (None, self, w\<lparr>files := fs\<rparr>)
         | (Some e, fs) \<Rightarrow> ((if caught e then None else Some e), self, w\<lparr>files := fs\<rparr>)))"


text \<open>
  The life of one instance, as its owner sees it: constructed with \<open>kw\<close>, run with
  each element of \<open>calls\<close> in turn (an exception of a call is left to the caller,
  who goes on), then destroyed. The result is the world after \<open>__del__\<close>.
\<close>

definition new_inst :: inst where
  "new_inst = \<lparr>multi_ndx = None, orig_ndx = None\<rparr>"

fun runs :: "env \<Rightarrow> (pyval list \<times> kwargs) list \<Rightarrow> inst \<times> world \<Rightarrow> inst \<times> world" where
  "runs E [] sw = sw"
| "runs E (c # cs) sw = runs E cs (snd (run E (fst c) (snd c) sw))"

definition lifetime :: "env \<Rightarrow> kwargs \<Rightarrow> (pyval list \<times> kwargs) list \<Rightarrow> world \<Rightarrow> world" where
  "lifetime E kw calls w = snd (snd (del E (runs E calls (snd (init E kw (new_inst, w))))))"

subsection \<open>A concrete environment\<close>

text \<open>
  An environment to run the methods in. The random names
  of \<open>tempfile\<close> are \<open>x\<close>, \<open>xx\<close>, \<open>xxx\<close>, ...; \<open>os.open\<close> fails with
  \<open>EMFILE\<close> (24) once 1024 descriptors are open; the module was loaded with the tools
  \<open>make_ndx\<close> and \<open>g_mindist\<close>; a command returns code 0 and leaves its output file
  on disk; \<open>unlink_gmx\<close> deletes the file it is given and raises nothing; the base
  class does nothing.
\<close>

definition plain_env :: env where
  "plain_env =
     \<lparr>tmpdir = ''/tmp'',
      candidate = (\<lambda>i. replicate (Suc i) CHR ''x''),
      TMP_MAX = 10000,
      os_open_error = (\<lambda>file w. if 1024 \<le> fds w then Some 24 else None),
      module_globals = module_registry [''make_ndx'', ''g_mindist''] [],
      run_command = (\<lambda>inv fs. (Inr (0, [], []),
         (case inv_o inv of PStr p \<Rightarrow> insert p fs | v \<Rightarrow> fs))),
      unlink_gmx = (\<lambda>path fs. (None, fs - {path})),
      base_init = (\<lambda>kw fs. (None, fs)),
      base_run = (\<lambda>args kw fs. (Inr PNone, fs))\<rparr>"

text \<open>The same environment with a command that fails by raising.\<close>

definition failing_env :: env where
  "failing_env = plain_env\<lparr>run_command := (\<lambda>inv fs. (Inl (OtherError ''GromacsError''), fs))\<rparr>"

text \<open>The same environment with a deletion that is refused: \<open>OSError\<close> with
  \<open>EACCES\<close> (13).\<close>

definition denied_env :: env where
  "denied_env = plain_env\<lparr>unlink_gmx := (\<lambda>path fs. (Some (OSError 13), fs))\<rparr>"

text \<open>The same environment for a module loaded with \<open>g_mindist\<close> but without
  \<open>make_ndx\<close>.\<close>

definition no_make_ndx_env :: env where
  "no_make_ndx_env = plain_env\<lparr>module_globals := module_registry [''g_mindist''] []\<rparr>"

text \<open>Two index files and a structure file on disk, the three standard descriptors
  open, nothing called yet.\<close>

definition world0 :: world where
  "world0 = \<lparr>files = {''a.ndx'', ''b.ndx'', ''conf.gro''}, fds = 3, rng = 0, trace = []\<rparr>"

definition two_ndx :: kwargs where
  "two_ndx = [''s'' \<mapsto> PStr ''conf.gro'', ''n'' \<mapsto> PList [PStr ''a.ndx'', PStr ''b.ndx'']]"

section \<open>Properties of the registry\<close>

lemma foldl_register_tool:
  "foldl register_tool reg xs k =
     (if filter (\<lambda>n. clsname_of n = k) xs = [] then reg k
      else Some (tool_class (last (filter (\<lambda>n. clsname_of n = k) xs))))"
  by (induction xs rule: rev_induct) (auto simp: register_tool_def)

lemma last_sorted_Max:
  "sorted xs \<Longrightarrow> xs \<noteq> [] \<Longrightarrow> last xs = Max (set xs)"
proof (induction xs)
  case Nil
  then show ?case by simp
next
  case (Cons x xs)
  show ?case
  proof (cases "xs = []")
    case True
    then show ?thesis by simp
  next
    case False
    with Cons have "last xs = Max (set xs)" by simp
    moreover have "x \<le> Max (set xs)" using Cons.prems False
      by (metis List.finite_set Max_ge_iff last_in_set calculation set_empty2 sorted_simps(2))
    ultimately show ?thesis using False by (simp add: max_def)
  qed
qed

lemma generate_lookup:
  "generate tools k =
     (if \<exists>n\<in>set tools. clsname_of n = k
      then Some (tool_class (Max {n \<in> set tools. clsname_of n = k})) else None)"
proof -
  let ?ys = "filter (\<lambda>n. clsname_of n = k) (sort tools)"
  have s: "sorted ?ys" using sorted_filter [of id "sort tools"] by simp
  have e: "set ?ys = {n \<in> set tools. clsname_of n = k}" by auto
  show ?thesis
  proof (cases "?ys = []")
    case True
    then have "\<not> (\<exists>n\<in>set tools. clsname_of n = k)" using e by auto
    then show ?thesis using True by (simp add: generate_def foldl_register_tool)
  next
    case False
    then have "\<exists>n\<in>set tools. clsname_of n = k" using e by (metis (mono_tags, lifting) empty_Collect_eq set_empty2)
    moreover have "last ?ys = Max {n \<in> set tools. clsname_of n = k}"
      using last_sorted_Max [OF s False] e by simp
    ultimately show ?thesis using False
      by (simp add: generate_def foldl_register_tool)
  qed
qed

lemma foldl_register_script:
  "foldl register_script reg xs k =
     (if filter (\<lambda>r. fst (snd r) = k) xs = [] then reg k
      else Some (script_class (last (filter (\<lambda>r. fst (snd r) = k) xs))))"
  by (induction xs rule: rev_induct) (auto simp: register_script_def split: prod.splits)

lemma py_lower_code: "(of_char (py_lower c) :: nat) =
   (if 65 \<le> (of_char c :: nat) \<and> (of_char c :: nat) \<le> 90 then of_char c + 32 else of_char c)"
  by (simp add: py_lower_def Let_def)

lemma py_upper_code: "(of_char (py_upper c) :: nat) =
   (if 97 \<le> (of_char c :: nat) \<and> (of_char c :: nat) \<le> 122 then of_char c - 32 else of_char c)"
  by (auto simp: py_upper_def Let_def)

lemma py_lower_upper:
  assumes "py_lower x = py_lower y"
  shows "py_upper x = py_upper y"
proof -
  define n m where nm: "n = (of_char x :: nat)" "m = (of_char y :: nat)"
  have "(of_char (py_lower x) :: nat) = of_char (py_lower y)"
    using assms by simp
  then have "(if 65 \<le> n \<and> n \<le> 90 then n + 32 else n) = (if 65 \<le> m \<and> m \<le> 90 then m + 32 else m)"
    unfolding py_lower_code nm .
  then have "(if 97 \<le> n \<and> n \<le> 122 then n - 32 else n) = (if 97 \<le> m \<and> m \<le> 122 then m - 32 else m)"
    by (auto split: if_splits)
  then have "(of_char (py_upper x) :: nat) = of_char (py_upper y)"
    unfolding py_upper_code nm .
  then show ?thesis by simp
qed

lemma py_lower_fixes:
  assumes "(of_char d :: nat) < 65"
  shows "py_lower c = d \<longleftrightarrow> c = d"
proof -
  define n m where nm: "n = (of_char c :: nat)" "m = (of_char d :: nat)"
  have "(if 65 \<le> n \<and> n \<le> 90 then n + 32 else n) = m \<longleftrightarrow> n = m"
    using assms unfolding nm by auto
  then have "(of_char (py_lower c) :: nat) = of_char d \<longleftrightarrow> (of_char c :: nat) = of_char d"
    unfolding py_lower_code nm .
  then show ?thesis by simp
qed

lemma py_lower_dot: "py_lower c = CHR ''.'' \<longleftrightarrow> c = CHR ''.''"
  by (rule py_lower_fixes) simp

lemma py_lower_dash: "py_lower c = CHR ''-'' \<longleftrightarrow> c = CHR ''-''"
  by (rule py_lower_fixes) simp


lemma py_lower_sep:
  assumes "py_lower x = py_lower y"
  shows "py_lower (sep x) = py_lower (sep y)"
proof -
  have "x = CHR ''.'' \<longleftrightarrow> y = CHR ''.''"
    using assms py_lower_dot [of x] py_lower_dot [of y] by simp
  moreover have "x = CHR ''-'' \<longleftrightarrow> y = CHR ''-''"
    using assms py_lower_dash [of x] py_lower_dash [of y] by simp
  ultimately show ?thesis
    using assms by (simp add: sep_def)
qed

lemma py_upper_sep: "py_lower x = py_lower y \<Longrightarrow> py_upper (sep x) = py_upper (sep y)"
  by (rule py_lower_upper) (rule py_lower_sep)

lemma clsname_of_Cons: "clsname_of (c # cs) = py_upper (sep c) # map (\<lambda>c. py_lower (sep c)) cs"
  by (auto simp: clsname_of_def replace_def sep_def)


lemma clsname_of_Nil: "clsname_of [] = []"
  by (simp add: clsname_of_def replace_def)

lemma map_lower_sep_cong:
  "list_all2 (\<lambda>x y. py_lower (sep x) = py_lower (sep y)) xs ys \<Longrightarrow>
   map (\<lambda>c. py_lower (sep c)) xs = map (\<lambda>c. py_lower (sep c)) ys"
  by (induction xs ys rule: list_all2_induct) simp_all

lemma clsname_of_cong:
  assumes "list_all2 (\<lambda>x y. py_lower (sep x) = py_lower (sep y)) a b"
  shows "clsname_of a = clsname_of b"
proof (cases a)
  case Nil
  then show ?thesis using assms by simp
next
  case (Cons x xs)
  then obtain y ys where b: "b = y # ys" and h: "py_lower (sep x) = py_lower (sep y)"
      and t: "list_all2 (\<lambda>x y. py_lower (sep x) = py_lower (sep y)) xs ys"
    using assms by (auto simp: list_all2_Cons1)
  have "py_upper (sep x) = py_upper (sep y)"
    using h by (rule py_lower_upper)
  then show ?thesis
    using Cons b map_lower_sep_cong [OF t] by (simp add: clsname_of_Cons)
qed

lemma same_modulo_case_or_separator:
  assumes "py_lower x = py_lower y \<or>
           (x \<in> {CHR ''.'', CHR ''-'', CHR ''_''} \<and> y \<in> {CHR ''.'', CHR ''-'', CHR ''_''})"
  shows "py_lower (sep x) = py_lower (sep y)"
  using assms
proof
  assume "py_lower x = py_lower y"
  then show ?thesis by (rule py_lower_sep)
next
  assume "x \<in> {CHR ''.'', CHR ''-'', CHR ''_''} \<and> y \<in> {CHR ''.'', CHR ''-'', CHR ''_''}"
  then have "sep x = CHR ''_''" "sep y = CHR ''_''" by (auto simp: sep_def)
  then show ?thesis by simp
qed

lemma generate_greatest:
  assumes "a \<in> set tools"
  shows "\<exists>m\<in>set tools. clsname_of m = clsname_of a
           \<and> (\<forall>n\<in>set tools. clsname_of n = clsname_of a \<longrightarrow> n \<le> m)
           \<and> generate tools (clsname_of a) = Some (tool_class m)"
proof -
  let ?S = "{n \<in> set tools. clsname_of n = clsname_of a}"
  have f: "finite ?S" and ne: "?S \<noteq> {}" using assms by auto
  have "Max ?S \<in> ?S" using f ne by (rule Max_in)
  moreover have "\<forall>n\<in>?S. n \<le> Max ?S" using f by simp
  moreover have "generate tools (clsname_of a) = Some (tool_class (Max ?S))"
    using assms by (auto simp: generate_lookup)
  ultimately show ?thesis by blast
qed

lemma tool_class_inj: "tool_class a = tool_class b \<Longrightarrow> a = b"
  by (simp add: tool_class_def)

text \<open>
  Claim C9. The registry key of a configured tool name is the name with \<open>.\<close> and
  \<open>-\<close> replaced by \<open>_\<close>, then capitalized: first character upper-cased, every
  other character lower-cased. So two configured names that differ only in letter case
  or in separator characters get the same key, and the entry the generic loop leaves
  under that key is not the one of the name that sorts first: it is the one of a
  configured name at least as late in sorted order as the second.
\<close>

theorem tool_key_collision_last_wins:
  assumes "a \<in> set load_tools" and "b \<in> set load_tools" and "a < b"
    and "list_all2 (\<lambda>x y. py_lower x = py_lower y \<or>
           (x \<in> {CHR ''.'', CHR ''-'', CHR ''_''} \<and> y \<in> {CHR ''.'', CHR ''-'', CHR ''_''})) a b"
  shows "clsname_of a =
           (case replace CHR ''-'' CHR ''_'' (replace CHR ''.'' CHR ''_'' a) of
              [] \<Rightarrow> [] | c # cs \<Rightarrow> py_upper c # map py_lower cs)
       \<and> clsname_of a = clsname_of b
       \<and> generate load_tools (clsname_of a) \<noteq> Some (tool_class a)
       \<and> (\<exists>m\<in>set load_tools. b \<le> m \<and> clsname_of m = clsname_of a
             \<and> generate load_tools (clsname_of a) = Some (tool_class m))"
proof -
  have form: "clsname_of a =
           (case replace CHR ''-'' CHR ''_'' (replace CHR ''.'' CHR ''_'' a) of
              [] \<Rightarrow> [] | c # cs \<Rightarrow> py_upper c # map py_lower cs)"
    by (simp add: clsname_of_def split: list.split)
  have "list_all2 (\<lambda>x y. py_lower (sep x) = py_lower (sep y)) a b"
    using assms(4) by (rule list_all2_mono) (rule same_modulo_case_or_separator)
  then have key: "clsname_of a = clsname_of b"
    by (rule clsname_of_cong)
  obtain m where m: "m \<in> set load_tools" "clsname_of m = clsname_of a"
      "\<forall>n\<in>set load_tools. clsname_of n = clsname_of a \<longrightarrow> n \<le> m"
      "generate load_tools (clsname_of a) = Some (tool_class m)"
    using generate_greatest [OF assms(1)] by blast
  have bm: "b \<le> m" using m(3) assms(2) key by simp
  then have "m \<noteq> a" using assms(3) by auto
  then have over: "generate load_tools (clsname_of a) \<noteq> Some (tool_class a)"
    using m(4) tool_class_inj by auto
  have "\<exists>m\<in>set load_tools. b \<le> m \<and> clsname_of m = clsname_of a
           \<and> generate load_tools (clsname_of a) = Some (tool_class m)"
    using m bm by blast
  with form key over show ?thesis by blast
qed

theorem tool_key_collision_last_wins_witness:
  "''G-Dist'' \<in> set [''g_dist'', ''G-Dist''] \<and> ''g_dist'' \<in> set [''g_dist'', ''G-Dist'']
   \<and> ''G-Dist'' < ''g_dist''
   \<and> list_all2 (\<lambda>x y. py_lower x = py_lower y \<or>
           (x \<in> {CHR ''.'', CHR ''-'', CHR ''_''} \<and> y \<in> {CHR ''.'', CHR ''-'', CHR ''_''}))
           ''G-Dist'' ''g_dist''
   \<and> clsname_of ''G-Dist'' = clsname_of ''g_dist''
   \<and> generate [''g_dist'', ''G-Dist''] (clsname_of ''G-Dist'') \<noteq> Some (tool_class ''G-Dist'')"
proof -
  have 1: "''G-Dist'' \<in> set [''g_dist'', ''G-Dist'']" by simp
  have 2: "''g_dist'' \<in> set [''g_dist'', ''G-Dist'']" by simp
  have 3: "''G-Dist'' < ''g_dist''" by code_simp
  have 4: "list_all2 (\<lambda>x y. py_lower x = py_lower y \<or>
           (x \<in> {CHR ''.'', CHR ''-'', CHR ''_''} \<and> y \<in> {CHR ''.'', CHR ''-'', CHR ''_''}))
           ''G-Dist'' ''g_dist''"
    by code_simp
  show ?thesis using 1 2 3 4 tool_key_collision_last_wins [OF 1 2 3 4] by blast
qed


lemma patched_lookup:
  "patched tools k =
     (if generate tools k = None then None
      else if k = ''G_mindist'' then Some G_mindist
      else if k = ''G_dist'' then Some G_dist
      else generate tools k)"
  by (simp add: patched_def patch_dist_def patch_mindist_def)

lemma module_registry_other:
  assumes "k \<notin> (\<lambda>r. fst (snd r)) ` set scripts"
  shows "module_registry tools scripts k = patched tools k"
proof -
  have "filter (\<lambda>r. fst (snd r) = k) scripts = []"
    using assms by (auto simp: filter_empty_conv)
  then show ?thesis
    by (simp add: module_registry_def foldl_register_script)
qed

lemma module_registry_script:
  assumes "r \<in> set scripts"
  shows "\<exists>r'\<in>set scripts. fst (snd r') = fst (snd r)
           \<and> module_registry tools scripts (fst (snd r)) = Some (script_class r')"
proof -
  let ?ys = "filter (\<lambda>r'. fst (snd r') = fst (snd r)) scripts"
  have ne: "?ys \<noteq> []" using assms by (auto simp: filter_empty_conv)
  then have "last ?ys \<in> set ?ys" by (rule last_in_set)
  then have "last ?ys \<in> set scripts" "fst (snd (last ?ys)) = fst (snd r)" by auto
  moreover have "module_registry tools scripts (fst (snd r)) = Some (script_class (last ?ys))"
    using ne by (simp add: module_registry_def foldl_register_script)
  ultimately show ?thesis by blast
qed

text \<open>
  Claim C3, as amended. For every tool name in \<open>config.load_tools\<close> the published
  registry holds a class under the name derived from it (dots and dashes turned into
  underscores, capitalized), and that class carries this name. If no other configured
  tool name gives the same class name, no configured script uses it, and it is neither
  \<open>G_mindist\<close> nor \<open>G_dist\<close>, the class derives from \<open>GromacsCommand\<close> and its
  \<open>command_name\<close> is the tool name followed by \<open>_mpi\<close>.
\<close>

theorem tool_class_registered:
  assumes "name \<in> set load_tools"
  shows "\<exists>cls. module_registry load_tools load_scripts (clsname_of name) = Some cls
           \<and> cls_name cls = clsname_of name
           \<and> ((\<forall>n\<in>set load_tools. clsname_of n = clsname_of name \<longrightarrow> n = name)
                \<and> (\<forall>r\<in>set load_scripts. fst (snd r) \<noteq> clsname_of name)
                \<and> clsname_of name \<noteq> ''G_mindist'' \<and> clsname_of name \<noteq> ''G_dist''
              \<longrightarrow> cls_base cls = GromacsCommand \<and> command_name cls = name @ ''_mpi'')"
proof (cases "\<exists>r\<in>set load_scripts. fst (snd r) = clsname_of name")
  case True
  then obtain r where r: "r \<in> set load_scripts" "fst (snd r) = clsname_of name" by blast
  obtain r' where "r' \<in> set load_scripts" "fst (snd r') = fst (snd r)"
      "module_registry load_tools load_scripts (fst (snd r)) = Some (script_class r')"
    using module_registry_script [OF r(1)] by blast
  then show ?thesis using r True
    by (auto simp: script_class_def split: prod.splits)
next
  case False
  then have reg: "module_registry load_tools load_scripts (clsname_of name)
                  = patched load_tools (clsname_of name)"
    by (intro module_registry_other) auto
  obtain m where m: "m \<in> set load_tools" "clsname_of m = clsname_of name"
      "generate load_tools (clsname_of name) = Some (tool_class m)"
    using generate_greatest [OF assms] by blast
  show ?thesis
  proof (cases "clsname_of name = ''G_mindist'' \<or> clsname_of name = ''G_dist''")
    case True
    then show ?thesis using reg m(3)
      by (auto simp: patched_lookup G_mindist_def G_dist_def)
  next
    case False
    then have "module_registry load_tools load_scripts (clsname_of name) = Some (tool_class m)"
      using reg m(3) by (simp add: patched_lookup)
    then show ?thesis using m(1,2)
      by (auto simp: tool_class_def)
  qed
qed

theorem tool_class_registered_witness:
  "''grompp'' \<in> set [''mdrun'', ''grompp'']
   \<and> clsname_of ''mdrun'' \<noteq> clsname_of ''grompp''
   \<and> ''GridMAT_MD'' \<noteq> clsname_of ''grompp''
   \<and> clsname_of ''grompp'' \<noteq> ''G_mindist'' \<and> clsname_of ''grompp'' \<noteq> ''G_dist''
   \<and> (\<exists>cls. module_registry [''mdrun'', ''grompp''] [(''/opt/bin/GridMAT-MD.pl'', ''GridMAT_MD'', ''grid'')]
               (clsname_of ''grompp'') = Some cls
            \<and> cls_base cls = GromacsCommand \<and> command_name cls = ''grompp_mpi'')"
proof -
  have 1: "''grompp'' \<in> set [''mdrun'', ''grompp'']" by simp
  have 2: "\<forall>n\<in>set [''mdrun'', ''grompp'']. clsname_of n = clsname_of ''grompp'' \<longrightarrow> n = ''grompp''"
    by code_simp
  have 3: "\<forall>r\<in>set [(''/opt/bin/GridMAT-MD.pl'', ''GridMAT_MD'', ''grid'')]. fst (snd r) \<noteq> clsname_of ''grompp''"
    by code_simp
  have 4: "clsname_of ''grompp'' \<noteq> ''G_mindist''" "clsname_of ''grompp'' \<noteq> ''G_dist''"
    by code_simp+
  have 5: "clsname_of ''mdrun'' \<noteq> clsname_of ''grompp''" "''GridMAT_MD'' \<noteq> clsname_of ''grompp''"
    by code_simp+
  show ?thesis
    using 1 2 3 4 5 tool_class_registered [OF 1, of "[(''/opt/bin/GridMAT-MD.pl'', ''GridMAT_MD'', ''grid'')]"]
    by auto
qed

text \<open>
  Claim C3 as stated fails when two configured names share a class name: with
  \<open>a_b\<close> and \<open>a.b\<close> configured, the class registered for \<open>a.b\<close> runs
  \<open>a_b_mpi\<close>, not \<open>a.b_mpi\<close>.
\<close>

theorem colliding_tool_names_counterexample:
  "''a.b'' \<in> set [''a_b'', ''a.b'']
   \<and> map_option command_name (module_registry [''a_b'', ''a.b''] [] (clsname_of ''a.b''))
       = Some ''a_b_mpi''
   \<and> ''a_b_mpi'' \<noteq> ''a.b'' @ ''_mpi''"
  by code_simp

text \<open>
  The hand-written replacement of a patched tool keeps the bare tool name: its
  \<open>command_name\<close> has no \<open>_mpi\<close> suffix, unlike the class it replaces.
\<close>

lemma patched_class_command_name:
  "map_option command_name (generate [''g_mindist''] ''G_mindist'') = Some ''g_mindist_mpi''
   \<and> map_option command_name (module_registry [''g_mindist''] [] ''G_mindist'') = Some ''g_mindist''"
  by code_simp



lemma module_registry_last_script:
  assumes "r \<in> set scripts"
  shows "\<exists>pre r' post. scripts = pre @ r' # post \<and> fst (snd r') = fst (snd r)
           \<and> (\<forall>z\<in>set post. fst (snd z) \<noteq> fst (snd r))
           \<and> module_registry tools scripts (fst (snd r)) = Some (script_class r')"
proof -
  have "\<exists>x\<in>set scripts. fst (snd x) = fst (snd r)" using assms by blast
  then obtain pre r' post where d: "scripts = pre @ r' # post" "fst (snd r') = fst (snd r)"
      "\<forall>z\<in>set post. fst (snd z) \<noteq> fst (snd r)"
    using split_list_last_prop [of scripts "\<lambda>x. fst (snd x) = fst (snd r)"] by blast
  have "filter (\<lambda>x. fst (snd x) = fst (snd r)) post = []"
    using d(3) by (auto simp: filter_empty_conv)
  then have "filter (\<lambda>x. fst (snd x) = fst (snd r)) scripts
               = filter (\<lambda>x. fst (snd x) = fst (snd r)) pre @ [r']"
    using d(1,2) by simp
  then have "module_registry tools scripts (fst (snd r)) = Some (script_class r')"
    by (simp add: module_registry_def foldl_register_script)
  with d show ?thesis by blast
qed

text \<open>
  Claim C8, as amended. For every triple \<open>(path, clsname, doc)\<close> in
  \<open>config.load_scripts\<close> the published registry holds under \<open>clsname\<close> one class,
  derived from \<open>Command\<close>, whose \<open>command_name\<close> is the path of the last configured
  triple with that class name: the triple's own path when every triple with that
  class name has this path. This holds whatever the tool classes are, so a script
  under the class name of a tool replaces the tool's class. Under every name that no
  script takes, the registry is what the tool classes and their patches left there.
\<close>

theorem script_class_registered:
  assumes "(path, clsname, doc) \<in> set load_scripts"
  shows "(\<exists>pre p d post. load_scripts = pre @ (p, clsname, d) # post
            \<and> (\<forall>r\<in>set post. fst (snd r) \<noteq> clsname)
            \<and> module_registry load_tools load_scripts clsname
                = Some \<lparr>cls_name = clsname, cls_base = Command, command_name = p\<rparr>
            \<and> ((\<forall>r\<in>set load_scripts. fst (snd r) = clsname \<longrightarrow> fst r = path) \<longrightarrow> p = path))
       \<and> (\<forall>k. (\<forall>r\<in>set load_scripts. fst (snd r) \<noteq> k) \<longrightarrow>
             module_registry load_tools load_scripts k = patched load_tools k)"
proof -
  obtain pre r' post where d: "load_scripts = pre @ r' # post" "fst (snd r') = clsname"
      "\<forall>z\<in>set post. fst (snd z) \<noteq> clsname"
      "module_registry load_tools load_scripts clsname = Some (script_class r')"
    using module_registry_last_script [OF assms, of load_tools] by auto
  obtain p dd where r': "r' = (p, clsname, dd)" using d(2) by (cases r') auto
  have "r' \<in> set load_scripts" using d(1) by simp
  then have "(\<forall>r\<in>set load_scripts. fst (snd r) = clsname \<longrightarrow> fst r = path) \<longrightarrow> p = path"
    using r' by auto
  moreover have "module_registry load_tools load_scripts clsname
                = Some \<lparr>cls_name = clsname, cls_base = Command, command_name = p\<rparr>"
    using d(4) r' by (simp add: script_class_def)
  moreover have "load_scripts = pre @ (p, clsname, dd) # post" using d(1) r' by simp
  moreover have "\<forall>k. (\<forall>r\<in>set load_scripts. fst (snd r) \<noteq> k) \<longrightarrow>
             module_registry load_tools load_scripts k = patched load_tools k"
    by (auto intro: module_registry_other)
  ultimately show ?thesis using d(3) by blast
qed

theorem script_class_registered_witness:
  "(''/a/x.pl'', ''X'', ''one'') \<in> set [(''/a/x.pl'', ''X'', ''one''), (''/b/x.pl'', ''X'', ''two'')]
   \<and> module_registry [''grompp''] [(''/a/x.pl'', ''X'', ''one''), (''/b/x.pl'', ''X'', ''two'')] ''X''
       = Some \<lparr>cls_name = ''X'', cls_base = Command, command_name = ''/b/x.pl''\<rparr>
   \<and> ''X'' \<noteq> ''Grompp''
   \<and> module_registry [''grompp''] [(''/a/x.pl'', ''X'', ''one''), (''/b/x.pl'', ''X'', ''two'')] ''Grompp''
       = patched [''grompp''] ''Grompp''"
proof -
  let ?S = "[(''/a/x.pl'', ''X'', ''one''), (''/b/x.pl'', ''X'', ''two'')]"
  have 1: "(''/a/x.pl'', ''X'', ''one'') \<in> set ?S" by simp
  have 2: "\<forall>r\<in>set ?S. fst (snd r) \<noteq> ''Grompp''" by simp
  note t = script_class_registered [OF 1, of "[''grompp'']"]
  from t obtain pre p d post where dec: "?S = pre @ (p, ''X'', d) # post"
      "\<forall>r\<in>set post. fst (snd r) \<noteq> ''X''"
      "module_registry [''grompp''] ?S ''X''
         = Some \<lparr>cls_name = ''X'', cls_base = Command, command_name = p\<rparr>"
    by blast
  have "p = ''/b/x.pl''"
    using dec(1,2) by (auto simp: Cons_eq_append_conv)
  then show ?thesis using 1 2 t dec(3) by simp
qed

text \<open>
  Claim C8 as stated fails: a script configured under the class name of a tool replaces
  the tool's class, and of two scripts with one class name only the later one's path
  is bound.
\<close>

theorem script_overrides_counterexample:
  "(''/opt/bin/grompp.sh'', ''Grompp'', ''wrapper'')
      \<in> set [(''/opt/bin/grompp.sh'', ''Grompp'', ''wrapper'')]
   \<and> patched [''grompp''] ''Grompp'' = Some (tool_class ''grompp'')
   \<and> module_registry [''grompp''] [(''/opt/bin/grompp.sh'', ''Grompp'', ''wrapper'')] ''Grompp''
       \<noteq> Some (tool_class ''grompp'')
   \<and> map_option command_name
        (module_registry [] [(''/a/x.pl'', ''X'', ''one''), (''/b/x.pl'', ''X'', ''two'')] ''X'')
       = Some ''/b/x.pl''
   \<and> ''/b/x.pl'' \<noteq> ''/a/x.pl''"
  by code_simp

lemma mkstemp_inner_Inr:
  "mkstemp_inner E pre suf k w = (Inr path, w1) \<Longrightarrow>
     path \<notin> files w \<and> files w1 = insert path (files w) \<and> fds w1 = Suc (fds w)
     \<and> trace w1 = trace w \<and> (\<exists>nm. path = tmpdir E @ ''/'' @ pre @ nm @ suf)"
proof (induction k arbitrary: w)
  case 0
  then show ?case by simp
next
  case (Suc k)
  let ?file = "tmpdir E @ ''/'' @ pre @ candidate E (rng w) @ suf"
  from Suc.prems have op: "os_open_error E ?file w = None"
    by (auto simp: Let_def split: option.splits)
  show ?case
  proof (cases "?file \<in> files w")
    case True
    then have "mkstemp_inner E pre suf k (w\<lparr>rng := Suc (rng w)\<rparr>) = (Inr path, w1)"
      using Suc.prems op by (simp add: Let_def)
    from Suc.IH [OF this] show ?thesis by simp
  next
    case False
    then show ?thesis using Suc.prems op by (auto simp: Let_def)
  qed
qed

text \<open>When \<open>os.open\<close> fails on no path but an existing one, \<open>mkstemp\<close> returns as
  soon as one of the names it may try is free.\<close>

lemma mkstemp_inner_returns:
  assumes "\<forall>file w'. os_open_error E file w' = None"
  shows "\<exists>i<k. tmpdir E @ ''/'' @ pre @ candidate E (rng w + i) @ suf \<notin> files w \<Longrightarrow>
         \<exists>path w1. mkstemp_inner E pre suf k w = (Inr path, w1)"
proof (induction k arbitrary: w)
  case 0
  then show ?case by simp
next
  case (Suc k)
  show ?case
  proof (cases "tmpdir E @ ''/'' @ pre @ candidate E (rng w) @ suf \<in> files w")
    case False
    then show ?thesis using assms by (simp add: Let_def)
  next
    case True
    from Suc.prems obtain i where i: "i < Suc k"
        "tmpdir E @ ''/'' @ pre @ candidate E (rng w + i) @ suf \<notin> files w" by blast
    with True obtain j where j: "i = Suc j" by (cases i) auto
    have "\<exists>i<k. tmpdir E @ ''/'' @ pre @ candidate E (rng (w\<lparr>rng := Suc (rng w)\<rparr>) + i) @ suf
              \<notin> files (w\<lparr>rng := Suc (rng w)\<rparr>)"
      using i j by (intro exI [of _ j]) simp
    from Suc.IH [OF this] show ?thesis using True assms by (simp add: Let_def)
  qed
qed

lemma mkstemp_inner_unfold:
  "0 < k \<Longrightarrow> mkstemp_inner E pre suf k w =
     (case os_open_error E (tmpdir E @ ''/'' @ pre @ candidate E (rng w) @ suf) w of
        Some errno \<Rightarrow> (Inl (OSError errno), w\<lparr>rng := Suc (rng w)\<rparr>)
      | None \<Rightarrow>
          if tmpdir E @ ''/'' @ pre @ candidate E (rng w) @ suf \<in> files w
          then mkstemp_inner E pre suf (k - 1) (w\<lparr>rng := Suc (rng w)\<rparr>)
          else (Inr (tmpdir E @ ''/'' @ pre @ candidate E (rng w) @ suf),
                w\<lparr>rng := Suc (rng w),
                  files := insert (tmpdir E @ ''/'' @ pre @ candidate E (rng w) @ suf) (files w),
                  fds := Suc (fds w)\<rparr>))"
  by (cases k) (auto simp: Let_def split: option.splits)

lemma fake_multi_ndx_merge:
  assumes n: "kw ''n'' = Some ndx" "ndx \<noteq> PNone" "\<not> is_str ndx" "py_len ndx = Some l" "1 < l"
    and mk: "mkstemp E ''.ndx'' ''multi_'' w = (Inr path, w1)"
    and cls: "module_globals E ''Make_ndx'' = Some cls"
  shows "fake_multi_ndx E kw (self, w) =
     (case run_command E (make_ndx_call cls kw ndx path) (files w1) of
        (Inl e, fs) \<Rightarrow>
          (Inl e, self\<lparr>multi_ndx := Some path\<rparr>,
           w1\<lparr>trace := trace w1 @ [MakeNdx (make_ndx_call cls kw ndx path)], files := fs\<rparr>)
      | (Inr r, fs) \<Rightarrow>
          (Inr (kw(''n'' \<mapsto> PStr path)), self\<lparr>multi_ndx := Some path, orig_ndx := Some ndx\<rparr>,
           w1\<lparr>trace := trace w1 @ [MakeNdx (make_ndx_call cls kw ndx path)], files := fs\<rparr>))"
  using n mk cls
  by (auto simp: fake_multi_ndx_def kwargs_get_def Let_def split: prod.splits sum.splits)

section \<open>Properties of the multi-index command\<close>




text \<open>
  Claim C1, as amended. Let the index argument \<open>n\<close> be a list or tuple of more than
  one element. If \<open>tempfile.mkstemp\<close> returns, the module has a class \<open>Make_ndx\<close>
  and the make-index call returns, then \<open>_fake_multi_ndx\<close> returns the keyword
  arguments with \<open>n\<close> replaced by the one path \<open>mkstemp\<close> returned. That file has
  prefix \<open>multi_\<close> and suffix \<open>.ndx\<close>, did not exist before the call, has been
  created and is on disk when the helper runs; so it differs from every input index
  file that exists. The path is stored on the instance, and exactly one make-index
  call was issued, with \<open>f\<close> bound to the structure-file argument \<open>s\<close>, \<open>n\<close> to the
  whole original sequence and \<open>o\<close> to the temporary file.
\<close>

theorem fake_multi_ndx_merges_indices:
  assumes "kw ''n'' = Some ndx" and "ndx = PList xs \<or> ndx = PTuple xs" and "1 < length xs"
    and "mkstemp E ''.ndx'' ''multi_'' w = (Inr path, w1)"
    and "module_globals E ''Make_ndx'' = Some cls"
    and "run_command E (make_ndx_call cls kw ndx path) (insert path (files w)) = (Inr r, fs)"
  shows "fake_multi_ndx E kw (self, w) =
           (Inr (kw(''n'' \<mapsto> PStr path)),
            self\<lparr>multi_ndx := Some path, orig_ndx := Some ndx\<rparr>,
            w1\<lparr>trace := trace w @
                  [MakeNdx \<lparr>inv_cls = cls, inv_f = kwargs_get kw ''s'', inv_n = ndx,
                            inv_o = PStr path, inv_input = PList [PStr ''q''],
                            inv_stdout = PBool False, inv_stderr = PBool False\<rparr>],
               files := fs\<rparr>)
       \<and> (\<exists>nm. path = tmpdir E @ ''/'' @ ''multi_'' @ nm @ ''.ndx'')
       \<and> path \<notin> files w \<and> files w1 = insert path (files w)
       \<and> (\<forall>p. PStr p \<in> set xs \<and> p \<in> files w \<longrightarrow> p \<noteq> path)"
proof -
  have mk: "path \<notin> files w" "files w1 = insert path (files w)" "trace w1 = trace w"
      "\<exists>nm. path = tmpdir E @ ''/'' @ ''multi_'' @ nm @ ''.ndx''"
    using mkstemp_inner_Inr [of E "''multi_''" "''.ndx''" "TMP_MAX E" w path w1] assms(4)
    by (simp_all add: mkstemp_def)
  have "fake_multi_ndx E kw (self, w) =
          (Inr (kw(''n'' \<mapsto> PStr path)), self\<lparr>multi_ndx := Some path, orig_ndx := Some ndx\<rparr>,
           w1\<lparr>trace := trace w1 @ [MakeNdx (make_ndx_call cls kw ndx path)], files := fs\<rparr>)"
    using fake_multi_ndx_merge [where kw = kw and ndx = ndx and l = "length xs",
        OF assms(1) _ _ _ assms(3-5)] assms(2,6) mk(2)
    by auto
  then show ?thesis
    using mk by (auto simp: make_ndx_call_def)
qed

theorem fake_multi_ndx_merges_indices_witness:
  "two_ndx ''n'' = Some (PList [PStr ''a.ndx'', PStr ''b.ndx''])
   \<and> 1 < length [PStr ''a.ndx'', PStr ''b.ndx'']
   \<and> mkstemp plain_env ''.ndx'' ''multi_'' world0
        = (Inr ''/tmp/multi_x.ndx'',
           world0\<lparr>rng := 1, files := insert ''/tmp/multi_x.ndx'' (files world0), fds := 4\<rparr>)
   \<and> module_globals plain_env ''Make_ndx'' = Some (tool_class ''make_ndx'')
   \<and> fake_multi_ndx plain_env two_ndx (new_inst, world0) =
        (Inr (two_ndx(''n'' \<mapsto> PStr ''/tmp/multi_x.ndx'')),
         new_inst\<lparr>multi_ndx := Some ''/tmp/multi_x.ndx'',
                   orig_ndx := Some (PList [PStr ''a.ndx'', PStr ''b.ndx''])\<rparr>,
         world0\<lparr>rng := 1, fds := 4,
           trace := [MakeNdx \<lparr>inv_cls = tool_class ''make_ndx'', inv_f = PStr ''conf.gro'',
                       inv_n = PList [PStr ''a.ndx'', PStr ''b.ndx''],
                       inv_o = PStr ''/tmp/multi_x.ndx'', inv_input = PList [PStr ''q''],
                       inv_stdout = PBool False, inv_stderr = PBool False\<rparr>],
           files := insert ''/tmp/multi_x.ndx'' (files world0)\<rparr>)
   \<and> ''/tmp/multi_x.ndx'' \<notin> files world0"
proof -
  let ?xs = "[PStr ''a.ndx'', PStr ''b.ndx'']"
  let ?w1 = "world0\<lparr>rng := 1, files := insert ''/tmp/multi_x.ndx'' (files world0), fds := 4\<rparr>"
  have 1: "two_ndx ''n'' = Some (PList ?xs)" by (simp add: two_ndx_def)
  have 2: "PList ?xs = PList ?xs \<or> PList ?xs = PTuple ?xs" by simp
  have 3: "1 < length ?xs" by simp
  have 4: "mkstemp plain_env ''.ndx'' ''multi_'' world0 = (Inr ''/tmp/multi_x.ndx'', ?w1)"
    by (simp add: mkstemp_def mkstemp_inner_unfold plain_env_def world0_def)
  have 5: "module_globals plain_env ''Make_ndx'' = Some (tool_class ''make_ndx'')" by code_simp
  have 6: "run_command plain_env (make_ndx_call (tool_class ''make_ndx'') two_ndx (PList ?xs) ''/tmp/multi_x.ndx'')
             (insert ''/tmp/multi_x.ndx'' (files world0))
           = (Inr (0, [], []), insert ''/tmp/multi_x.ndx'' (files world0))"
    by (simp add: plain_env_def make_ndx_call_def)
  have 7: "kwargs_get two_ndx ''s'' = PStr ''conf.gro''" by (simp add: kwargs_get_def two_ndx_def)
  show ?thesis
    using 1 3 4 5 7
      fake_multi_ndx_merges_indices [where kw = two_ndx and ndx = "PList ?xs" and E = plain_env
        and w = world0 and self = new_inst, OF 1 2 3 4 5 6]
    by (simp add: world0_def)
qed

text \<open>
  Claim C1 as stated fails in two ways. In a module loaded with \<open>g_mindist\<close> but
  without \<open>make_ndx\<close> there is no global \<open>Make_ndx\<close>: the method raises
  \<open>NameError\<close>, after the temporary file was created, and issues no make-index call.
  And the temporary path differs only from the files that exist: when the first input
  path names no file and \<open>tempfile\<close> draws that very name, the path returned is one
  of the inputs.
\<close>

theorem make_ndx_missing_counterexample:
  "(case fst (fake_multi_ndx no_make_ndx_env two_ndx (new_inst, world0)) of
      Inl e \<Rightarrow> Some e | Inr kw' \<Rightarrow> None) = Some NameError
   \<and> length (trace (snd (snd (fake_multi_ndx no_make_ndx_env two_ndx (new_inst, world0))))) = 0
   \<and> ''/tmp/multi_x.ndx''
        \<in> files (snd (snd (fake_multi_ndx no_make_ndx_env two_ndx (new_inst, world0))))
   \<and> (case fst (fake_multi_ndx plain_env
                   [''n'' \<mapsto> PList [PStr ''/tmp/multi_x.ndx'', PStr ''b.ndx'']] (new_inst, world0)) of
         Inl e \<Rightarrow> None | Inr kw' \<Rightarrow> kw' ''n'') = Some (PStr ''/tmp/multi_x.ndx'')
   \<and> PStr ''/tmp/multi_x.ndx'' \<in> set [PStr ''/tmp/multi_x.ndx'', PStr ''b.ndx'']"
  by code_simp

text \<open>
  Claim C10. When the index argument \<open>n\<close> is neither \<open>None\<close> nor a string and has
  no length (an integer, for example), \<open>_fake_multi_ndx\<close> raises \<open>TypeError\<close>, and
  so do \<open>__init__\<close> and \<open>run\<close>, with the instance and the world untouched: the
  base class was not called.
\<close>

theorem index_without_len_raises_type_error:
  assumes "kw ''n'' = Some v" and "v \<noteq> PNone" and "\<not> is_str v" and "py_len v = None"
  shows "fake_multi_ndx E kw (self, w) = (Inl TypeError, self, w)
       \<and> init E kw (self, w) = (Some TypeError, self, w)
       \<and> run E args kw (self, w) = (Inl TypeError, self, w)"
  using assms by (simp add: init_def run_def fake_multi_ndx_def kwargs_get_def)

theorem index_without_len_raises_type_error_witness:
  "[''n'' \<mapsto> PInt 3] ''n'' = Some (PInt 3) \<and> PInt 3 \<noteq> PNone \<and> \<not> is_str (PInt 3)
   \<and> py_len (PInt 3) = None
   \<and> init plain_env [''n'' \<mapsto> PInt 3] (new_inst, world0) = (Some TypeError, new_inst, world0)
   \<and> run plain_env [] [''n'' \<mapsto> PInt 3] (new_inst, world0) = (Inl TypeError, new_inst, world0)"
proof -
  have 1: "[''n'' \<mapsto> PInt 3] ''n'' = Some (PInt 3)" by simp
  have 2: "PInt 3 \<noteq> PNone" by simp
  have 3: "\<not> is_str (PInt 3)" by simp
  have 4: "py_len (PInt 3) = None" by simp
  show ?thesis
    using 1 2 3 4 index_without_len_raises_type_error [where kw = "[''n'' \<mapsto> PInt 3]" and v = "PInt 3", OF 1 2 3 4]
    by blast
qed

text \<open>
  Claim C7. When the make-index call issued by \<open>_fake_multi_ndx\<close> raises, both
  \<open>__init__\<close> and \<open>run\<close> raise that same exception; the base class is not called
  (the only call recorded is the make-index one), and nothing is undone: the temporary
  file stays recorded on the instance.
\<close>

theorem make_ndx_failure_propagates:
  assumes "kw ''n'' = Some ndx" and "ndx = PList xs \<or> ndx = PTuple xs" and "1 < length xs"
    and "mkstemp E ''.ndx'' ''multi_'' w = (Inr path, w1)"
    and "module_globals E ''Make_ndx'' = Some cls"
    and "run_command E (make_ndx_call cls kw ndx path) (files w1) = (Inl e, fs)"
  shows "init E kw (self, w) =
           (Some e, self\<lparr>multi_ndx := Some path\<rparr>,
            w1\<lparr>trace := trace w @ [MakeNdx (make_ndx_call cls kw ndx path)], files := fs\<rparr>)
       \<and> run E args kw (self, w) =
           (Inl e, self\<lparr>multi_ndx := Some path\<rparr>,
            w1\<lparr>trace := trace w @ [MakeNdx (make_ndx_call cls kw ndx path)], files := fs\<rparr>)"
proof -
  have t: "trace w1 = trace w"
    using assms(4) mkstemp_inner_Inr by (auto simp: mkstemp_def)
  have "fake_multi_ndx E kw (self, w) =
          (Inl e, self\<lparr>multi_ndx := Some path\<rparr>,
           w1\<lparr>trace := trace w @ [MakeNdx (make_ndx_call cls kw ndx path)], files := fs\<rparr>)"
    using fake_multi_ndx_merge [where kw = kw and ndx = ndx and l = "length xs", OF assms(1) _ _ _ assms(3-5)]
      assms(2,6) t by auto
  then show ?thesis by (simp add: init_def run_def)
qed

theorem make_ndx_failure_propagates_witness:
  "two_ndx ''n'' = Some (PList [PStr ''a.ndx'', PStr ''b.ndx''])
   \<and> 1 < length [PStr ''a.ndx'', PStr ''b.ndx'']
   \<and> mkstemp failing_env ''.ndx'' ''multi_'' world0
        = (Inr ''/tmp/multi_x.ndx'', world0\<lparr>rng := 1, files := insert ''/tmp/multi_x.ndx'' (files world0), fds := 4\<rparr>)
   \<and> module_globals failing_env ''Make_ndx'' = Some (tool_class ''make_ndx'')
   \<and> fst (run_command failing_env
        (make_ndx_call (tool_class ''make_ndx'') two_ndx (PList [PStr ''a.ndx'', PStr ''b.ndx'']) ''/tmp/multi_x.ndx'')
        (insert ''/tmp/multi_x.ndx'' (files world0))) = Inl (OtherError ''GromacsError'')
   \<and> fst (init failing_env two_ndx (new_inst, world0)) = Some (OtherError ''GromacsError'')
   \<and> fst (run failing_env [] two_ndx (new_inst, world0)) = Inl (OtherError ''GromacsError'')"
proof -
  let ?w1 = "world0\<lparr>rng := 1, files := insert ''/tmp/multi_x.ndx'' (files world0), fds := 4\<rparr>"
  let ?ndx = "PList [PStr ''a.ndx'', PStr ''b.ndx'']"
  have 1: "two_ndx ''n'' = Some ?ndx" by (simp add: two_ndx_def)
  have 2: "?ndx = PList [PStr ''a.ndx'', PStr ''b.ndx''] \<or> ?ndx = PTuple [PStr ''a.ndx'', PStr ''b.ndx'']"
    by simp
  have 3: "1 < length [PStr ''a.ndx'', PStr ''b.ndx'']" by simp
  have 4: "mkstemp failing_env ''.ndx'' ''multi_'' world0 = (Inr ''/tmp/multi_x.ndx'', ?w1)"
    by (simp add: mkstemp_def mkstemp_inner_unfold failing_env_def plain_env_def world0_def)
  have 5: "module_globals failing_env ''Make_ndx'' = Some (tool_class ''make_ndx'')"
    by code_simp
  have 6: "run_command failing_env (make_ndx_call (tool_class ''make_ndx'') two_ndx ?ndx ''/tmp/multi_x.ndx'')
             (files ?w1) = (Inl (OtherError ''GromacsError''), files ?w1)"
    by (simp add: failing_env_def)
  show ?thesis
    using 1 3 4 5 6
      make_ndx_failure_propagates [where kw = two_ndx and ndx = ?ndx and self = new_inst and args = "[]", OF 1 2 3 4 5 6]
    by simp
qed

text \<open>
  Claim C4. \<open>__del__\<close> never raises. When the temporary file was never created the
  attribute \<open>multi_ndx\<close> is missing, the \<open>AttributeError\<close> is caught and nothing is
  touched. Otherwise the file is handed to \<open>utilities.unlink_gmx\<close>, and whatever
  error the deletion raises is discarded: the file no longer existing, a refused
  permission or any other \<open>OSError\<close>, whatever its error number. The errors of a
  deletion are \<open>OSError\<close>s (or an \<open>AttributeError\<close>); that is all the theorem assumes
  of \<open>unlink_gmx\<close>.
\<close>

theorem del_never_raises:
  assumes "\<forall>path fs e fs'. unlink_gmx E path fs = (Some e, fs') \<longrightarrow>
             e = AttributeError \<or> (\<exists>errno. e = OSError errno)"
  shows "fst (del E (self, w)) = None
       \<and> (multi_ndx self = None \<longrightarrow> del E (self, w) = (None, self, w))"
proof -
  have c: "caught e" if "unlink_gmx E path fs = (Some e, fs')" for path fs e fs'
    using assms that by (metis caught.simps(1,2))
  show ?thesis
    by (auto simp: del_def dest: c split: option.splits prod.splits)
qed

theorem del_never_raises_witness:
  "multi_ndx (new_inst\<lparr>multi_ndx := Some ''/tmp/multi_x.ndx''\<rparr>) = Some ''/tmp/multi_x.ndx''
   \<and> fst (unlink_gmx denied_env ''/tmp/multi_x.ndx'' (files world0)) = Some (OSError 13)
   \<and> fst (del denied_env (new_inst\<lparr>multi_ndx := Some ''/tmp/multi_x.ndx''\<rparr>, world0)) = None
   \<and> multi_ndx new_inst = None
   \<and> del denied_env (new_inst, world0) = (None, new_inst, world0)"
proof -
  have h: "\<forall>path fs e fs'. unlink_gmx denied_env path fs = (Some e, fs') \<longrightarrow>
             e = AttributeError \<or> (\<exists>errno. e = OSError errno)"
    by (simp add: denied_env_def)
  have 1: "multi_ndx new_inst = None" by (simp add: new_inst_def)
  have 2: "fst (unlink_gmx denied_env ''/tmp/multi_x.ndx'' (files world0)) = Some (OSError 13)"
    by (simp add: denied_env_def)
  show ?thesis
    using 1 2
      del_never_raises [OF h, of "new_inst\<lparr>multi_ndx := Some ''/tmp/multi_x.ndx''\<rparr>" world0]
      del_never_raises [OF h, of new_inst world0]
    by simp
qed

text \<open>
  Claim C5 on an instance that merges twice. The instance is constructed with two index
  files and run once more with two index files, then destroyed, in an environment
  where the deletion works. Each merge allocates a temporary file of its own and
  overwrites \<open>self.multi_ndx\<close>; \<open>__del__\<close> deletes the file of the last merge only,
  and the file the constructor created is still on disk after the instance is gone.
\<close>

theorem earlier_temp_file_survives_del:
  "''/tmp/multi_x.ndx'' \<notin> files world0
   \<and> multi_ndx (fst (snd (init plain_env two_ndx (new_inst, world0)))) = Some ''/tmp/multi_x.ndx''
   \<and> multi_ndx (fst (runs plain_env [([], two_ndx)] (snd (init plain_env two_ndx (new_inst, world0)))))
       = Some ''/tmp/multi_xx.ndx''
   \<and> ''/tmp/multi_xx.ndx'' \<notin> files (lifetime plain_env two_ndx [([], two_ndx)] world0)
   \<and> ''/tmp/multi_x.ndx'' \<in> files (lifetime plain_env two_ndx [([], two_ndx)] world0)"
  by code_simp

end
